theory Spec2Isabelle
  imports Main
begin

section \<open>Data model of the client hook\<close>

text \<open>
  The client module (\<^verbatim>\<open>useFlags\<close>, its reducer and its effect runner) is embedded
  here. The values a user or a trait map may hold are JSON values.
\<close>

datatype json =
    JNull
  | JBool bool
  | JNum int
  | JStr string
  | JArr "json list"
  | JObj "(string \<times> json) list"

text \<open>
  A flag's value is a boolean, a string or a number. Numbers are held as integers here and in
  \<open>json\<close>; nothing below computes with them.
\<close>

datatype flag_value = FBool bool | FStr string | FNum int

type_synonym flags = "string \<rightharpoonup> flag_value"

text \<open>
  \<^verbatim>\<open>Input = { endpoint, envKey, requestBody: { visitorKey, user, traits, static } }\<close>
\<close>

record request_body =
  visitorKey :: string
  user :: "json option"
  traits :: "json option"
  static :: bool

record input =
  endpoint :: string
  envKey :: string
  requestBody :: request_body

text \<open>
  \<^verbatim>\<open>Outcome = { responseBody: { flags, visitor?: { key } } }\<close>
\<close>

datatype visitor = Visitor (key: string)

record response_body =
  flags :: flags
  visitor :: "visitor option"

record outcome =
  responseBody :: response_body

datatype resolving_error = ResponseNotOk | InvalidResponseBody | NetworkError

text \<open>
  \<^verbatim>\<open>State.current\<close> is null, or \<^verbatim>\<open>{ input, outcome }\<close>, or
  \<^verbatim>\<open>{ input, outcome: null, error, cachedOutcome }\<close>: the two object shapes are
  the two constructors, and \<^verbatim>\<open>null\<close> is \<open>None\<close> in the state.
\<close>

datatype current =
    Succeeded input outcome
  | Failed input resolving_error "outcome option"

fun current_input :: "current \<Rightarrow> input" where
  "current_input (Succeeded i out) = i"
| "current_input (Failed i e c) = i"

fun current_outcome :: "current \<Rightarrow> outcome option" where
  "current_outcome (Succeeded i out) = Some out"
| "current_outcome (Failed i e c) = None"

fun current_error :: "current \<Rightarrow> resolving_error option" where
  "current_error (Succeeded i out) = None"
| "current_error (Failed i e c) = Some e"

fun current_cachedOutcome :: "current \<Rightarrow> outcome option" where
  "current_cachedOutcome (Succeeded i out) = None"
| "current_cachedOutcome (Failed i e c) = c"

record pending =
  pending_input :: input
  pending_cachedOutcome :: "outcome option"

record state =
  current :: "current option"
  pending :: "pending option"

datatype action =
    Evaluate input
  | Revalidate
  | SettleSuccess input outcome
  | SettleFailure input resolving_error

datatype effect = Fetch input

section \<open>What the reducer reads and writes outside its arguments\<close>

text \<open>
  The reducer reads and writes the module-level \<^verbatim>\<open>cache\<close> and assigns to
  \<^verbatim>\<open>document.cookie\<close>. Both are threaded through the model as a record.
  The field \<open>cookie\<close> is the value stored under the visitor-identity cookie
  \<^verbatim>\<open>hkvk\<close>, \<open>None\<close> while no such cookie is set.
\<close>

record world =
  cache :: "input \<rightharpoonup> outcome"
  cookie :: "string option"

text \<open>
  Modelled from the spec: \<^verbatim>\<open>utils.deepEqual\<close> is not among the sources. The spec
  says that two inputs are equal iff all their fields are deep-equal. The second argument of
  each call in the reducer is \<^verbatim>\<open>state.pending?.input\<close>, which is \<^verbatim>\<open>undefined\<close>
  when nothing is pending; an input never equals \<^verbatim>\<open>undefined\<close>. JSON objects are
  held with their keys in one fixed order, so that deep equality is equality of values.
\<close>

definition deepEqual :: "input option \<Rightarrow> input option \<Rightarrow> bool" where
  "deepEqual a b = (a = b)"

text \<open>
  Modelled from the spec: the class \<^verbatim>\<open>utils.ObjectMap\<close> is not among the sources.
  The spec describes the cache as a mapping from inputs, by structural equality, to the most
  recent successful outcome of that exact input, with no eviction; \<^verbatim>\<open>get\<close> of an
  input that was never stored is \<^verbatim>\<open>null\<close>.
\<close>

definition cache_get :: "world \<Rightarrow> input \<Rightarrow> outcome option" where
  "cache_get w i = cache w i"

definition cache_set :: "world \<Rightarrow> input \<Rightarrow> outcome \<Rightarrow> world" where
  "cache_set w i out = w\<lparr>cache := (cache w)(i \<mapsto> out)\<rparr>"

text \<open>
  A string in a JavaScript condition counts as true iff it is not empty; \<^verbatim>\<open>undefined\<close>
  and \<^verbatim>\<open>null\<close> count as false.
\<close>

fun truthy :: "string option \<Rightarrow> bool" where
  "truthy None = False"
| "truthy (Some s) = (s \<noteq> [])"

text \<open>
  Modelled from the spec: \<^verbatim>\<open>utils.serializeVisitorKeyCookie\<close> is not among the
  sources. The spec describes the visitor identity as a single string-valued cookie of a fixed
  name that is written with the key a response carries;
  \<^verbatim>\<open>document.cookie = serializeVisitorKeyCookie(visitorKey)\<close> stores the key under it.
\<close>

definition write_cookie :: "world \<Rightarrow> string \<Rightarrow> world" where
  "write_cookie w k = w\<lparr>cookie := Some k\<rparr>"

section \<open>The reducer\<close>

text \<open>
  The reducer takes the tuple \<^verbatim>\<open>[state, effects]\<close> and returns such a tuple. Where
  the source says \<^verbatim>\<open>return tuple\<close> it hands back the very tuple it was given, with the
  same array of effects; every other \<^verbatim>\<open>return\<close> builds a new tuple with a new array.
  The effect runner is keyed on that array, so the two are told apart in what is returned.
\<close>

datatype returned = Tuple_itself | New_tuple state "effect list"

text \<open>The tuple that the hook holds after the reducer has returned.\<close>

fun tuple_after :: "state \<times> effect list \<Rightarrow> returned \<Rightarrow> state \<times> effect list" where
  "tuple_after tuple Tuple_itself = tuple"
| "tuple_after tuple (New_tuple s effs) = (s, effs)"

text \<open>The effects that the return hands to the runner: those of a new array only.\<close>

fun emitted :: "returned \<Rightarrow> effect list" where
  "emitted Tuple_itself = []"
| "emitted (New_tuple s effs) = effs"

text \<open>\<^verbatim>\<open>state.pending?.input || state.current?.input\<close>\<close>

definition latestInput :: "state \<Rightarrow> input option" where
  "latestInput s =
     (case pending s of
        Some p \<Rightarrow> Some (pending_input p)
      | None \<Rightarrow> map_option current_input (current s))"

fun reducer :: "world \<Rightarrow> state \<times> effect list \<Rightarrow> action \<Rightarrow> world \<times> returned" where
  "reducer w (s, effects) (Evaluate i) =
     (let cachedOutcome = cache_get w i
      in (w, New_tuple
               (s\<lparr>pending := Some \<lparr>pending_input = i, pending_cachedOutcome = cachedOutcome\<rparr>\<rparr>)
               [Fetch i]))"
| "reducer w (s, effects) Revalidate =
     (case latestInput s of
        None \<Rightarrow> (w, Tuple_itself)
      | Some li \<Rightarrow>
          (let cachedOutcome = cache_get w li
           in (w, New_tuple
                    (s\<lparr>pending := Some \<lparr>pending_input = li, pending_cachedOutcome = cachedOutcome\<rparr>\<rparr>)
                    [Fetch li])))"
| "reducer w (s, effects) (SettleSuccess i out) =
     (if \<not> deepEqual (Some i) (map_option pending_input (pending s)) then (w, Tuple_itself)
      else
        (let w1 = cache_set w i out;
             visitorKey = map_option key (visitor (responseBody out));
             w2 = (case visitorKey of
                     None \<Rightarrow> w1
                   | Some k \<Rightarrow> if truthy (Some k) then write_cookie w1 k else w1)
         in (w2, New_tuple (s\<lparr>current := Some (Succeeded i out), pending := None\<rparr>) [])))"
| "reducer w (s, effects) (SettleFailure i e) =
     (if \<not> deepEqual (Some i) (map_option pending_input (pending s)) then (w, Tuple_itself)
      else
        (w, New_tuple
              (s\<lparr>current := Some (Failed i e (cache_get w i)), pending := None\<rparr>)
              []))"

text \<open>One dispatch: the world and the tuple after the reducer has run on an action.\<close>

definition dispatch :: "world \<times> state \<times> effect list \<Rightarrow> action \<Rightarrow> world \<times> state \<times> effect list" where
  "dispatch wt a =
     (case reducer (fst wt) (snd wt) a of (w', r) \<Rightarrow> (w', tuple_after (snd wt) r))"

section \<open>The hook around the reducer\<close>

text \<open>
  The module \<^verbatim>\<open>config\<close> is not among the sources; the configuration is a parameter
  of the model, \<open>None\<close> when \<^verbatim>\<open>isConfigured(config)\<close> fails.
\<close>

record configuration =
  config_endpoint :: string
  config_envKey :: string
  config_defaultFlags :: flags
  config_revalidateOnFocus :: bool

datatype hook_error = MissingConfigurationError

text \<open>
  The initial state handed over by the server: \<^verbatim>\<open>{ input, outcome }\<close> or
  \<^verbatim>\<open>{ input, outcome: null, error }\<close>.
\<close>

datatype initial_flag_state =
    InitialOutcome input outcome
  | InitialError input resolving_error

record options =
  opt_user :: "json option"
  opt_traits :: "json option"
  opt_initialState :: "initial_flag_state option"
  opt_revalidateOnFocus :: "bool option"
  ready :: "bool option"

text \<open>When ready is undefined, it counts as true.\<close>

definition isReady :: "bool option \<Rightarrow> bool" where
  "isReady r = (r = None \<or> r = Some True)"

definition isEmergingInput :: "input \<Rightarrow> state \<Rightarrow> bool" where
  "isEmergingInput i s =
     (case pending s of
        Some p \<Rightarrow> \<not> deepEqual (Some (pending_input p)) (Some i)
      | None \<Rightarrow>
          (case current s of
             Some c \<Rightarrow> \<not> deepEqual (Some (current_input c)) (Some i)
           | None \<Rightarrow> True))"

text \<open>The initialiser passed to \<^verbatim>\<open>React.useReducer\<close>.\<close>

definition initial_tuple :: "initial_flag_state option \<Rightarrow> state \<times> effect list" where
  "initial_tuple init =
     (\<lparr>current =
         (case init of
            None \<Rightarrow> None
          | Some (InitialOutcome i out) \<Rightarrow> Some (Succeeded i out)
          | Some (InitialError i e) \<Rightarrow> Some (Failed i e None)),
       pending = None\<rparr>,
      [])"

definition shouldRevalidateOnFocus :: "configuration \<Rightarrow> options \<Rightarrow> bool" where
  "shouldRevalidateOnFocus c opts =
     (case opt_revalidateOnFocus opts of
        None \<Rightarrow> config_revalidateOnFocus c
      | Some b \<Rightarrow> b)"

text \<open>
  The visitor key of the next input: the cookie, else the pending input's key, else the key the
  current outcome carries, else the generated key. Each test is a JavaScript truth test:
  \<open>or_string a b\<close> is \<^verbatim>\<open>if (a) return a;\<close> followed by what yields \<open>b\<close>.
\<close>

fun or_string :: "string option \<Rightarrow> string \<Rightarrow> string" where
  "or_string None fallback = fallback"
| "or_string (Some k) fallback = (if truthy (Some k) then k else fallback)"

definition resolveVisitorKey :: "world \<Rightarrow> state \<Rightarrow> string \<Rightarrow> string" where
  "resolveVisitorKey w s generatedVisitorKey =
     (let fromPending = map_option (\<lambda>p. visitorKey (requestBody (pending_input p))) (pending s);
          fromCurrent =
            (case current s of
               None \<Rightarrow> None
             | Some c \<Rightarrow>
                 (case current_outcome c of
                    None \<Rightarrow> None
                  | Some out \<Rightarrow> map_option key (visitor (responseBody out))))
      in or_string (cookie w) (or_string fromPending (or_string fromCurrent generatedVisitorKey)))"

definition hookInput :: "configuration \<Rightarrow> options \<Rightarrow> world \<Rightarrow> state \<Rightarrow> string \<Rightarrow> input" where
  "hookInput c opts w s generatedVisitorKey =
     \<lparr>endpoint = config_endpoint c,
      envKey = config_envKey c,
      requestBody =
        \<lparr>visitorKey = resolveVisitorKey w s generatedVisitorKey,
         user = opt_user opts,
         traits = opt_traits opts,
         static = False\<rparr>\<rparr>"

text \<open>
  The body of the effect that watches the state, the user, the traits and \<^verbatim>\<open>ready\<close>:
  the actions it dispatches itself, or the error it throws.
\<close>

definition inputEffect ::
  "configuration option \<Rightarrow> options \<Rightarrow> world \<Rightarrow> state \<Rightarrow> string \<Rightarrow> hook_error + action list" where
  "inputEffect cfg opts w s generatedVisitorKey =
     (case cfg of
        None \<Rightarrow> Inl MissingConfigurationError
      | Some c \<Rightarrow>
          (let i = hookInput c opts w s generatedVisitorKey
           in Inr (if isEmergingInput i s \<and> isReady (ready opts) then [Evaluate i] else [])))"

text \<open>The same effect goes on to listen for \<^verbatim>\<open>visibilitychange\<close> unless it has returned before.\<close>

definition listensForFocus :: "configuration option \<Rightarrow> options \<Rightarrow> bool" where
  "listensForFocus cfg opts =
     (case cfg of
        None \<Rightarrow> False
      | Some c \<Rightarrow> shouldRevalidateOnFocus c opts)"

datatype visibility_state = Visible | Hidden

definition handleFocus :: "options \<Rightarrow> visibility_state \<Rightarrow> action list" where
  "handleFocus opts visibilityState =
     (if visibilityState = Visible \<and> isReady (ready opts) then [Revalidate] else [])"

text \<open>
  The handle \<^verbatim>\<open>revalidate\<close> of the flag bag is
  \<^verbatim>\<open>React.useCallback(() => dispatch({ type: "revalidate" }), [dispatch])\<close>: the actions
  that one call of it dispatches.
\<close>

definition revalidate_handle :: "action list" where
  "revalidate_handle = [Revalidate]"

section \<open>The flag bag\<close>

text \<open>
  Modelled from the spec: \<^verbatim>\<open>utils.combineRawFlagsWithDefaultFlags\<close> is not among the
  sources. The spec says that the flags are the raw flags merged with the statically configured
  default flags, the raw flags' values winning per key when raw flags are present. With no raw
  flags the merge is of the defaults alone; the hook does not use that value.
\<close>

definition combineRawFlagsWithDefaultFlags :: "flags option \<Rightarrow> flags \<Rightarrow> flags" where
  "combineRawFlagsWithDefaultFlags rawFlags defaultFlags =
     (case rawFlags of
        None \<Rightarrow> defaultFlags
      | Some raw \<Rightarrow> defaultFlags ++ raw)"

text \<open>\<^verbatim>\<open>a || b\<close> on strings that may be undefined.\<close>

definition js_or :: "string option \<Rightarrow> string option \<Rightarrow> string option" where
  "js_or a b = (if truthy a then a else b)"

record flag_bag =
  bag_flags :: "flags option"
  rawFlags :: "flags option"
  fetching :: bool
  settled :: bool
  bag_visitorKey :: "string option"
  revalidate :: "action list"

text \<open>
  A flags object counts as true in \<^verbatim>\<open>... || null\<close> and in \<^verbatim>\<open>rawFlags ? flags : null\<close>
  whatever its keys; \<^verbatim>\<open>Boolean(state.pending)\<close> tests for \<^verbatim>\<open>null\<close>.
\<close>

definition flagBag :: "state \<Rightarrow> flags \<Rightarrow> flag_bag" where
  "flagBag s defaultFlags =
     (let currentOutcome = (case current s of None \<Rightarrow> None | Some c \<Rightarrow> current_outcome c);
          raw = map_option (\<lambda>out. flags (responseBody out)) currentOutcome;
          combined = combineRawFlagsWithDefaultFlags raw defaultFlags
      in \<lparr>bag_flags = (case raw of None \<Rightarrow> None | Some r \<Rightarrow> Some combined),
          rawFlags = raw,
          fetching = (pending s \<noteq> None),
          settled =
            (case current s of
               None \<Rightarrow> False
             | Some c \<Rightarrow> \<not> static (requestBody (current_input c))),
          bag_visitorKey =
            js_or
              (js_or
                 (js_or
                    (case currentOutcome of
                       None \<Rightarrow> None
                     | Some out \<Rightarrow> map_option key (visitor (responseBody out)))
                    (map_option (\<lambda>c. visitorKey (requestBody (current_input c))) (current s)))
                 (map_option (\<lambda>p. visitorKey (requestBody (pending_input p))) (pending s)))
              None,
          revalidate = revalidate_handle\<rparr>)"

definition useFlags :: "configuration option \<Rightarrow> state \<Rightarrow> hook_error + flag_bag" where
  "useFlags cfg s =
     (case cfg of
        None \<Rightarrow> Inl MissingConfigurationError
      | Some c \<Rightarrow> Inr (flagBag s (config_defaultFlags c)))"

text \<open>
  What makes the hook dispatch \<^verbatim>\<open>evaluate\<close> or \<^verbatim>\<open>revalidate\<close>: a run of the input
  effect, a \<^verbatim>\<open>visibilitychange\<close> event, and a call of the flag bag's handle.
\<close>

datatype trigger = InputEffect | VisibilityChange visibility_state | RevalidateCall

definition dispatched ::
  "configuration option \<Rightarrow> options \<Rightarrow> world \<Rightarrow> state \<Rightarrow> string \<Rightarrow> trigger \<Rightarrow> action list" where
  "dispatched cfg opts w s generatedVisitorKey t =
     (case t of
        InputEffect \<Rightarrow>
          (case inputEffect cfg opts w s generatedVisitorKey of
             Inl e \<Rightarrow> []
           | Inr acts \<Rightarrow> acts)
      | VisibilityChange v \<Rightarrow>
          (if listensForFocus cfg opts then handleFocus opts v else [])
      | RevalidateCall \<Rightarrow>
          (case useFlags cfg s of
             Inl e \<Rightarrow> []
           | Inr bag \<Rightarrow> revalidate bag))"

section \<open>The effect runner\<close>

text \<open>
  A promise that has settled, and a chain of promises together with the actions dispatched
  while it ran. The reason of a rejection is only logged by the source, so it is left out.
\<close>

datatype 'a promise = Fulfilled 'a | Rejected

type_synonym 'a chain = "action list \<times> 'a promise"

text \<open>\<^verbatim>\<open>p.then(onFulfilled, onRejected)\<close>: one of the two handlers runs, on how \<open>p\<close> settled.\<close>

definition promise_then ::
  "'a chain \<Rightarrow> ('a \<Rightarrow> 'b chain) \<Rightarrow> (unit \<Rightarrow> 'b chain) \<Rightarrow> 'b chain" where
  "promise_then p onFulfilled onRejected =
     (case p of
        (ds, Fulfilled v) \<Rightarrow> (case onFulfilled v of (ds', q) \<Rightarrow> (ds @ ds', q))
      | (ds, Rejected) \<Rightarrow> (case onRejected () of (ds', q) \<Rightarrow> (ds @ ds', q)))"

text \<open>\<^verbatim>\<open>p.catch(onRejected)\<close>: the handler runs only when \<open>p\<close> was rejected.\<close>

definition promise_catch :: "'a chain \<Rightarrow> (unit \<Rightarrow> 'a chain) \<Rightarrow> 'a chain" where
  "promise_catch p onRejected =
     (case p of
        (ds, Fulfilled v) \<Rightarrow> (ds, Fulfilled v)
      | (ds, Rejected) \<Rightarrow> (case onRejected () of (ds', q) \<Rightarrow> (ds @ ds', q)))"

text \<open>
  A response of the service: whether its status is 200 to 299, and what
  \<^verbatim>\<open>response.json()\<close> resolves with, \<open>None\<close> when it rejects because the body does not
  parse. The promise of \<^verbatim>\<open>fetch\<close> itself is rejected when no response arrives.
\<close>

record response =
  ok :: bool
  json_body :: "response_body option"

definition onResponse :: "input \<Rightarrow> response \<Rightarrow> unit chain" where
  "onResponse i r =
     (case json_body r of
        None \<Rightarrow> ([], Rejected)
      | Some body \<Rightarrow>
          (if ok r then ([SettleSuccess i \<lparr>responseBody = body\<rparr>], Fulfilled ())
           else ([SettleFailure i ResponseNotOk], Fulfilled ())))"

definition runEffect :: "effect \<Rightarrow> response promise \<Rightarrow> action list" where
  "runEffect eff fetched =
     (case eff of
        Fetch i \<Rightarrow>
          fst (promise_catch
                 (promise_then ([], fetched)
                    (onResponse i)
                    (\<lambda>_. ([SettleFailure i InvalidResponseBody], Fulfilled ())))
                 (\<lambda>_. ([SettleFailure i NetworkError], Fulfilled ()))))"

section \<open>Runs of the reducer\<close>

text \<open>The actions of a list, dispatched one after the other.\<close>

fun run :: "world \<times> state \<times> effect list \<Rightarrow> action list \<Rightarrow> world \<times> state \<times> effect list" where
  "run wt [] = wt"
| "run wt (a # as) = run (dispatch wt a) as"

fun is_settle :: "action \<Rightarrow> bool" where
  "is_settle (SettleSuccess i out) = True"
| "is_settle (SettleFailure i e) = True"
| "is_settle a = False"

definition current_of :: "world \<times> state \<times> effect list \<Rightarrow> current option" where
  "current_of wt = current (fst (snd wt))"

definition pending_of :: "world \<times> state \<times> effect list \<Rightarrow> pending option" where
  "pending_of wt = pending (fst (snd wt))"

section \<open>Concrete inputs, outcomes and states\<close>

definition input_a :: input where
  "input_a =
     \<lparr>endpoint = ''https://happykit.dev/api/flags'', envKey = ''flags_pub_1'',
      requestBody = \<lparr>visitorKey = ''v1'', user = None, traits = None, static = False\<rparr>\<rparr>"

definition input_b :: input where
  "input_b =
     \<lparr>endpoint = ''https://happykit.dev/api/flags'', envKey = ''flags_pub_1'',
      requestBody =
        \<lparr>visitorKey = ''v1'', user = None,
         traits = Some (JObj [(''employee'', JBool True)]), static = False\<rparr>\<rparr>"

definition outcome_x :: outcome where
  "outcome_x =
     \<lparr>responseBody = \<lparr>flags = [''x'' \<mapsto> FBool True], visitor = Some (Visitor ''v1'')\<rparr>\<rparr>"

text \<open>An outcome whose visitor object is present and whose key is the empty string.\<close>

definition outcome_blank :: outcome where
  "outcome_blank =
     \<lparr>responseBody = \<lparr>flags = [''x'' \<mapsto> FBool True], visitor = Some (Visitor [])\<rparr>\<rparr>"

definition world_0 :: world where
  "world_0 = \<lparr>cache = Map.empty, cookie = Some ''v0''\<rparr>"

definition world_a :: world where
  "world_a = \<lparr>cache = [input_a \<mapsto> outcome_x], cookie = Some ''v1''\<rparr>"

definition state_0 :: state where
  "state_0 = \<lparr>current = None, pending = None\<rparr>"

definition pending_a :: pending where
  "pending_a = \<lparr>pending_input = input_a, pending_cachedOutcome = Some outcome_x\<rparr>"

definition pending_b :: pending where
  "pending_b = \<lparr>pending_input = input_b, pending_cachedOutcome = None\<rparr>"

definition state_awaiting_a :: state where
  "state_awaiting_a = \<lparr>current = None, pending = Some pending_a\<rparr>"

definition state_awaiting_b :: state where
  "state_awaiting_b = \<lparr>current = Some (Succeeded input_a outcome_x), pending = Some pending_b\<rparr>"

definition state_settled_a :: state where
  "state_settled_a = \<lparr>current = Some (Succeeded input_a outcome_x), pending = None\<rparr>"

definition config_0 :: configuration where
  "config_0 =
     \<lparr>config_endpoint = ''https://happykit.dev/api/flags'', config_envKey = ''flags_pub_1'',
      config_defaultFlags = Map.empty, config_revalidateOnFocus = True\<rparr>"

definition options_not_ready :: options where
  "options_not_ready =
     \<lparr>opt_user = None, opt_traits = None, opt_initialState = None,
      opt_revalidateOnFocus = None, ready = Some False\<rparr>"

section \<open>Stale and late responses\<close>

text \<open>
  Claim C1. In a state with a pending entry, a \<^verbatim>\<open>settle/success\<close> or a
  \<^verbatim>\<open>settle/failure\<close> whose input is not deep-equal to the pending input changes nothing:
  the world (cache and cookie) is the one before, the hook holds the tuple it held, and no effect
  is handed to the runner.
\<close>

theorem stale_settle_is_noop:
  assumes "pending s = Some p"
    and "\<not> deepEqual (Some i) (Some (pending_input p))"
    and "a = SettleSuccess i out \<or> a = SettleFailure i e"
  shows "dispatch (w, s, effs) a = (w, s, effs)
       \<and> cache (fst (reducer w (s, effs) a)) = cache w
       \<and> cookie (fst (reducer w (s, effs) a)) = cookie w
       \<and> emitted (snd (reducer w (s, effs) a)) = []"
  using assms by (auto simp: dispatch_def deepEqual_def)

text \<open>
  An instance: \<open>input_a\<close> was superseded by \<open>input_b\<close>, and the response to \<open>input_a\<close>
  arrives while \<open>input_b\<close> is pending.
\<close>

theorem stale_settle_is_noop_witness:
  "pending state_awaiting_b = Some pending_b
   \<and> \<not> deepEqual (Some input_a) (Some (pending_input pending_b))
   \<and> dispatch (world_a, state_awaiting_b, [Fetch input_b]) (SettleSuccess input_a outcome_x)
       = (world_a, state_awaiting_b, [Fetch input_b])
   \<and> emitted (snd (reducer world_a (state_awaiting_b, [Fetch input_b])
                     (SettleSuccess input_a outcome_x))) = []"
proof -
  have h1: "pending state_awaiting_b = Some pending_b"
    by (simp add: state_awaiting_b_def)
  have h2: "\<not> deepEqual (Some input_a) (Some (pending_input pending_b))"
    by (simp add: deepEqual_def pending_b_def input_a_def input_b_def)
  have h3: "SettleSuccess input_a outcome_x = SettleSuccess input_a outcome_x
            \<or> SettleSuccess input_a outcome_x = SettleFailure input_a NetworkError"
    by simp
  from stale_settle_is_noop [OF h1 h2 h3, of world_a "[Fetch input_b]"] h1 h2
  show ?thesis by simp
qed

text \<open>
  Claim C9. With nothing pending, every \<^verbatim>\<open>settle/success\<close> and every
  \<^verbatim>\<open>settle/failure\<close> changes nothing, whatever its input, the current input included:
  world and tuple are the ones before and no effect is handed to the runner.
\<close>

theorem settle_without_pending_is_noop:
  assumes "pending s = None"
    and "a = SettleSuccess i out \<or> a = SettleFailure i e"
  shows "dispatch (w, s, effs) a = (w, s, effs)
       \<and> cache (fst (reducer w (s, effs) a)) = cache w
       \<and> cookie (fst (reducer w (s, effs) a)) = cookie w
       \<and> emitted (snd (reducer w (s, effs) a)) = []"
  using assms by (auto simp: dispatch_def deepEqual_def)

text \<open>An instance: a second response to \<open>input_a\<close>, the input of the current result.\<close>

theorem settle_without_pending_is_noop_witness:
  "pending state_settled_a = None
   \<and> map_option current_input (current state_settled_a) = Some input_a
   \<and> dispatch (world_a, state_settled_a, []) (SettleSuccess input_a outcome_blank)
       = (world_a, state_settled_a, [])
   \<and> dispatch (world_a, state_settled_a, []) (SettleFailure input_a NetworkError)
       = (world_a, state_settled_a, [])"
proof -
  have h: "pending state_settled_a = None"
    by (simp add: state_settled_a_def)
  have c: "map_option current_input (current state_settled_a) = Some input_a"
    by (simp add: state_settled_a_def)
  have s1: "SettleSuccess input_a outcome_blank = SettleSuccess input_a outcome_blank
            \<or> SettleSuccess input_a outcome_blank = SettleFailure input_a NetworkError"
    by simp
  have s2: "SettleFailure input_a NetworkError = SettleSuccess input_a outcome_blank
            \<or> SettleFailure input_a NetworkError = SettleFailure input_a NetworkError"
    by simp
  from settle_without_pending_is_noop [OF h s1, of world_a "[]"]
       settle_without_pending_is_noop [OF h s2, of world_a "[]"] h c
  show ?thesis by simp
qed

section \<open>Settling the pending input\<close>

text \<open>
  Claim C2. After \<^verbatim>\<open>evaluate(input)\<close> and then \<^verbatim>\<open>settle/success(input, outcome)\<close>
  with the same input, the cache maps the input to the outcome, current is
  \<^verbatim>\<open>{ input, outcome }\<close>, nothing is pending and no effect is emitted; and if the
  outcome carries a visitor key, the cookie holds that key. The reducer tests the key as the
  hook tests every visitor key, by its truth value, under which the empty string is no key:
  with no visitor, or with an empty string for its key, the cookie is the one from before.
\<close>

theorem evaluate_then_settle_success:
  "cache (fst (run (w, t) [Evaluate i, SettleSuccess i out])) i = Some out
   \<and> current_of (run (w, t) [Evaluate i, SettleSuccess i out]) = Some (Succeeded i out)
   \<and> pending_of (run (w, t) [Evaluate i, SettleSuccess i out]) = None
   \<and> snd (snd (run (w, t) [Evaluate i, SettleSuccess i out])) = []
   \<and> cookie (fst (run (w, t) [Evaluate i, SettleSuccess i out])) =
       (case visitor (responseBody out) of
          None \<Rightarrow> cookie w
        | Some v \<Rightarrow> if key v = [] then cookie w else Some (key v))"
  by (cases t)
     (auto simp: dispatch_def deepEqual_def cache_get_def cache_set_def write_cookie_def
                 current_of_def pending_of_def Let_def
           split: option.splits)

text \<open>
  An instance: the cookie holds \<open>v0\<close>, and the response to \<open>input_a\<close> carries the
  visitor key \<open>v1\<close>.
\<close>

theorem evaluate_then_settle_success_witness:
  "map_option key (visitor (responseBody outcome_x)) = Some ''v1''
   \<and> cookie world_0 = Some ''v0''
   \<and> cache (fst (run (world_0, state_0, []) [Evaluate input_a, SettleSuccess input_a outcome_x]))
        input_a = Some outcome_x
   \<and> current_of (run (world_0, state_0, []) [Evaluate input_a, SettleSuccess input_a outcome_x])
       = Some (Succeeded input_a outcome_x)
   \<and> pending_of (run (world_0, state_0, []) [Evaluate input_a, SettleSuccess input_a outcome_x])
       = None
   \<and> cookie (fst (run (world_0, state_0, []) [Evaluate input_a, SettleSuccess input_a outcome_x]))
       = Some ''v1''"
proof -
  have v: "visitor (responseBody outcome_x) = Some (Visitor ''v1'')"
    by (simp add: outcome_x_def)
  have c: "cookie world_0 = Some ''v0''"
    by (simp add: world_0_def)
  from evaluate_then_settle_success [of world_0 "(state_0, [])" input_a outcome_x] v c
  show ?thesis by simp
qed

text \<open>
  Claim C5. After \<^verbatim>\<open>settle/failure(input, error)\<close> with an input deep-equal to the
  pending input, current is \<^verbatim>\<open>{ input, outcome: null, error, cachedOutcome }\<close> with the
  dispatched error and with the cache's entry for the input (null when the cache has none), and
  nothing is pending. The world is the one before.
\<close>

theorem settle_failure_of_pending:
  assumes "pending s = Some p"
    and "deepEqual (Some i) (Some (pending_input p))"
  shows "current_of (dispatch (w, s, effs) (SettleFailure i e)) = Some (Failed i e (cache w i))
       \<and> map_option current_outcome (current_of (dispatch (w, s, effs) (SettleFailure i e)))
           = Some None
       \<and> map_option current_error (current_of (dispatch (w, s, effs) (SettleFailure i e)))
           = Some (Some e)
       \<and> map_option current_cachedOutcome (current_of (dispatch (w, s, effs) (SettleFailure i e)))
           = Some (cache w i)
       \<and> pending_of (dispatch (w, s, effs) (SettleFailure i e)) = None
       \<and> fst (dispatch (w, s, effs) (SettleFailure i e)) = w"
  using assms
  by (simp add: dispatch_def deepEqual_def current_of_def pending_of_def cache_get_def)

text \<open>
  Two instances: \<open>input_a\<close> fails with its outcome in the cache, and fails with an empty
  cache.
\<close>

theorem settle_failure_of_pending_witness:
  "pending state_awaiting_a = Some pending_a
   \<and> deepEqual (Some input_a) (Some (pending_input pending_a))
   \<and> current_of (dispatch (world_a, state_awaiting_a, [Fetch input_a])
                   (SettleFailure input_a NetworkError))
       = Some (Failed input_a NetworkError (Some outcome_x))
   \<and> current_of (dispatch (world_0, state_awaiting_a, [Fetch input_a])
                   (SettleFailure input_a NetworkError))
       = Some (Failed input_a NetworkError None)
   \<and> pending_of (dispatch (world_a, state_awaiting_a, [Fetch input_a])
                   (SettleFailure input_a NetworkError)) = None"
proof -
  have h1: "pending state_awaiting_a = Some pending_a"
    by (simp add: state_awaiting_a_def)
  have h2: "deepEqual (Some input_a) (Some (pending_input pending_a))"
    by (simp add: deepEqual_def pending_a_def)
  have ca: "cache world_a input_a = Some outcome_x"
    by (simp add: world_a_def)
  have c0: "cache world_0 input_a = None"
    by (simp add: world_0_def)
  from settle_failure_of_pending [OF h1 h2, of world_a "[Fetch input_a]" NetworkError]
       settle_failure_of_pending [OF h1 h2, of world_0 "[Fetch input_a]" NetworkError]
       h1 h2 ca c0
  show ?thesis by simp
qed

section \<open>Revalidation\<close>

lemma latestInput_cases:
  "latestInput s =
     (case pending s of
        Some p \<Rightarrow> Some (pending_input p)
      | None \<Rightarrow> (case current s of Some c \<Rightarrow> Some (current_input c) | None \<Rightarrow> None))"
  by (simp add: latestInput_def split: option.splits)

text \<open>
  Claim C8. \<^verbatim>\<open>revalidate()\<close> never changes the world. When neither a pending entry nor
  a current result exists, the hook holds the tuple it held and no effect is emitted. Otherwise
  the latest input is the pending input if there is one and the current input if not; the new
  state is the old one with pending set to that input and the cache's entry for it, and exactly
  one effect is emitted, the fetch of that input.
\<close>

theorem revalidate_step:
  "fst (reducer w (s, effs) Revalidate) = w
   \<and> (case (case pending s of
               Some p \<Rightarrow> Some (pending_input p)
             | None \<Rightarrow> (case current s of Some c \<Rightarrow> Some (current_input c) | None \<Rightarrow> None)) of
         None \<Rightarrow>
           dispatch (w, s, effs) Revalidate = (w, s, effs)
           \<and> emitted (snd (reducer w (s, effs) Revalidate)) = []
       | Some li \<Rightarrow>
           fst (snd (dispatch (w, s, effs) Revalidate)) =
             s\<lparr>pending := Some \<lparr>pending_input = li, pending_cachedOutcome = cache w li\<rparr>\<rparr>
           \<and> emitted (snd (reducer w (s, effs) Revalidate)) = [Fetch li])"
proof (cases "latestInput s")
  case None
  then have r: "reducer w (s, effs) Revalidate = (w, Tuple_itself)"
    by simp
  then have "dispatch (w, s, effs) Revalidate = (w, s, effs)"
    by (simp add: dispatch_def)
  with r None show ?thesis
    by (simp add: latestInput_cases [symmetric])
next
  case (Some li)
  then have r: "reducer w (s, effs) Revalidate =
      (w, New_tuple (s\<lparr>pending := Some \<lparr>pending_input = li, pending_cachedOutcome = cache w li\<rparr>\<rparr>)
            [Fetch li])"
    by (simp add: cache_get_def)
  then have "fst (snd (dispatch (w, s, effs) Revalidate)) =
      s\<lparr>pending := Some \<lparr>pending_input = li, pending_cachedOutcome = cache w li\<rparr>\<rparr>"
    by (simp add: dispatch_def)
  with r Some show ?thesis
    by (simp add: latestInput_cases [symmetric])
qed

section \<open>The current result is never cleared\<close>

lemma dispatch_current_stays_set:
  "current_of wt \<noteq> None \<Longrightarrow> current_of (dispatch wt a) \<noteq> None"
  by (cases wt; cases a)
     (auto simp: dispatch_def current_of_def Let_def split: option.splits)

lemma dispatch_request_keeps_current:
  "\<not> is_settle a \<Longrightarrow> current_of (dispatch wt a) = current_of wt"
  by (cases wt; cases a)
     (auto simp: dispatch_def current_of_def Let_def split: option.splits)

lemma run_current_stays_set:
  "current_of wt \<noteq> None \<Longrightarrow> current_of (run wt as) \<noteq> None"
proof (induction as arbitrary: wt)
  case Nil
  then show ?case by simp
next
  case (Cons a as)
  from Cons.prems have "current_of (dispatch wt a) \<noteq> None"
    by (rule dispatch_current_stays_set)
  then have "current_of (run (dispatch wt a) as) \<noteq> None"
    by (rule Cons.IH)
  then show ?case by simp
qed

lemma run_requests_keep_current:
  "list_all (\<lambda>a. \<not> is_settle a) as \<Longrightarrow> current_of (run wt as) = current_of wt"
  by (induction as arbitrary: wt) (auto simp: dispatch_request_keeps_current)

lemma settle_success_replaces_or_skips:
  "current_of (dispatch wt (SettleSuccess i out)) = Some (Succeeded i out)
   \<or> dispatch wt (SettleSuccess i out) = wt"
  by (cases wt) (auto simp: dispatch_def current_of_def Let_def)

lemma settle_failure_replaces_or_skips:
  "current_of (dispatch wt (SettleFailure i e)) = Some (Failed i e (cache (fst wt) i))
   \<or> dispatch wt (SettleFailure i e) = wt"
  by (cases wt) (auto simp: dispatch_def current_of_def cache_get_def Let_def)

lemma revalidate_replaces_pending:
  "current_of wt \<noteq> None \<Longrightarrow>
     \<exists>li. pending_of (dispatch wt Revalidate)
            = Some \<lparr>pending_input = li, pending_cachedOutcome = cache (fst wt) li\<rparr>"
  by (cases wt)
     (auto simp: dispatch_def pending_of_def current_of_def latestInput_def cache_get_def
           split: option.splits)

lemma evaluate_replaces_pending:
  "pending_of (dispatch wt (Evaluate i))
     = Some \<lparr>pending_input = i, pending_cachedOutcome = cache (fst wt) i\<rparr>"
  by (cases wt) (simp add: dispatch_def pending_of_def cache_get_def)

text \<open>
  Claim C10. No action sets current from non-null back to null, over any run of actions.
  \<^verbatim>\<open>evaluate\<close> and \<^verbatim>\<open>revalidate\<close> leave current as it is, so it is the same after any
  run without a settle action; \<^verbatim>\<open>evaluate\<close> replaces pending, and so does
  \<^verbatim>\<open>revalidate\<close> once there is a current result. A settle action either
  replaces current with the newly settled value or leaves world and tuple untouched.
\<close>

theorem current_never_cleared:
  "(current_of wt \<noteq> None \<longrightarrow> current_of (run wt as) \<noteq> None)
   \<and> (list_all (\<lambda>a. \<not> is_settle a) as \<longrightarrow> current_of (run wt as) = current_of wt)
   \<and> pending_of (dispatch wt (Evaluate i))
       = Some \<lparr>pending_input = i, pending_cachedOutcome = cache (fst wt) i\<rparr>
   \<and> (current_of wt \<noteq> None \<longrightarrow>
        (\<exists>li. pending_of (dispatch wt Revalidate)
                = Some \<lparr>pending_input = li, pending_cachedOutcome = cache (fst wt) li\<rparr>))
   \<and> (current_of (dispatch wt (SettleSuccess i out)) = Some (Succeeded i out)
        \<or> dispatch wt (SettleSuccess i out) = wt)
   \<and> (current_of (dispatch wt (SettleFailure i e)) = Some (Failed i e (cache (fst wt) i))
        \<or> dispatch wt (SettleFailure i e) = wt)"
  using run_current_stays_set [of wt as] run_requests_keep_current [of as wt]
        evaluate_replaces_pending [of wt i] revalidate_replaces_pending [of wt]
        settle_success_replaces_or_skips [of wt i out]
        settle_failure_replaces_or_skips [of wt i e]
  by blast

text \<open>
  An instance: the result for \<open>input_a\<close> is shown; a revalidation, an evaluation of
  \<open>input_b\<close>, a stale success for \<open>input_a\<close> and a failure of \<open>input_b\<close> follow.
\<close>

theorem current_never_cleared_witness:
  "current_of (world_a, state_settled_a, []) \<noteq> None
   \<and> current_of (run (world_a, state_settled_a, [])
                   [Revalidate, Evaluate input_b, SettleSuccess input_a outcome_blank,
                    SettleFailure input_b ResponseNotOk]) \<noteq> None
   \<and> list_all (\<lambda>a. \<not> is_settle a) [Revalidate, Evaluate input_b]
   \<and> current_of (run (world_a, state_settled_a, []) [Revalidate, Evaluate input_b])
       = Some (Succeeded input_a outcome_x)"
proof -
  have h1: "current_of (world_a, state_settled_a, []) \<noteq> None"
    by (simp add: current_of_def state_settled_a_def)
  have h2: "list_all (\<lambda>a. \<not> is_settle a) [Revalidate, Evaluate input_b]"
    by simp
  have c: "current_of (world_a, state_settled_a, []) = Some (Succeeded input_a outcome_x)"
    by (simp add: current_of_def state_settled_a_def)
  from current_never_cleared
         [of "(world_a, state_settled_a, [])"
             "[Revalidate, Evaluate input_b, SettleSuccess input_a outcome_blank,
               SettleFailure input_b ResponseNotOk]"
             input_a outcome_x NetworkError]
       current_never_cleared
         [of "(world_a, state_settled_a, [])" "[Revalidate, Evaluate input_b]"
             input_a outcome_x NetworkError]
       h1 h2 c
  show ?thesis by metis
qed

section \<open>What the flag bag shows\<close>

text \<open>
  Claim C6. For every state and all default flags: the raw flags of the flag bag are the flags
  of the current outcome, and null when there is no current result or when it is a failure; the
  flags are null whenever the raw flags are null, and otherwise map each key to the raw flags'
  value when the raw flags have the key and to the default's value when they do not.
\<close>

theorem flag_bag_flags:
  "rawFlags (flagBag s d) =
     (case current s of
        None \<Rightarrow> None
      | Some (Succeeded i out) \<Rightarrow> Some (flags (responseBody out))
      | Some (Failed i e c) \<Rightarrow> None)
   \<and> bag_flags (flagBag s d) =
     (case rawFlags (flagBag s d) of
        None \<Rightarrow> None
      | Some raw \<Rightarrow> Some (\<lambda>k. case raw k of None \<Rightarrow> d k | Some v \<Rightarrow> Some v))"
  by (auto simp: flagBag_def combineRawFlagsWithDefaultFlags_def Let_def map_add_def
           split: option.splits current.splits)

text \<open>
  Claim C7. For every state: the flag bag is settled iff there is a current result whose input
  is not a static one, and it is fetching iff something is pending. When the pending input
  settles with success, the flag bag is settled iff that input is not static, so it is not
  settled after the success of a static input.
\<close>

theorem flag_bag_settled_fetching:
  "settled (flagBag s d)
     = (\<exists>c. current s = Some c \<and> \<not> static (requestBody (current_input c)))
   \<and> fetching (flagBag s d) = (pending s \<noteq> None)
   \<and> settled
       (flagBag
          (fst (snd (dispatch
                       (w, s\<lparr>pending := Some \<lparr>pending_input = i, pending_cachedOutcome = co\<rparr>\<rparr>,
                        effs)
                       (SettleSuccess i out))))
          d)
     = (\<not> static (requestBody i))"
proof -
  have settled_eq: "settled (flagBag s' d)
      = (\<exists>c. current s' = Some c \<and> \<not> static (requestBody (current_input c)))" for s'
    by (cases "current s'") (simp_all add: flagBag_def Let_def)
  have fetching_eq: "fetching (flagBag s d) = (pending s \<noteq> None)"
    by (simp add: flagBag_def Let_def)
  have after: "current (fst (snd (dispatch
                       (w, s\<lparr>pending := Some \<lparr>pending_input = i, pending_cachedOutcome = co\<rparr>\<rparr>,
                        effs)
                       (SettleSuccess i out)))) = Some (Succeeded i out)"
    by (simp add: dispatch_def deepEqual_def Let_def split: option.splits)
  show ?thesis
    unfolding settled_eq [of "fst (snd (dispatch
                       (w, s\<lparr>pending := Some \<lparr>pending_input = i, pending_cachedOutcome = co\<rparr>\<rparr>,
                        effs)
                       (SettleSuccess i out)))"] after
    using settled_eq [of s] fetching_eq by simp
qed

section \<open>The readiness gate\<close>

text \<open>
  Claim C4. While \<^verbatim>\<open>ready\<close> is false, the input effect dispatches no action and a
  \<^verbatim>\<open>visibilitychange\<close> event dispatches no action. The handle \<^verbatim>\<open>revalidate\<close> of
  the flag bag does not look at \<^verbatim>\<open>ready\<close>: a call of it dispatches
  \<^verbatim>\<open>revalidate\<close>. An undefined \<^verbatim>\<open>ready\<close> counts as true: each trigger dispatches
  with it what it dispatches with \<^verbatim>\<open>ready: true\<close>.
\<close>

theorem not_ready_gates_input_and_focus:
  assumes "ready opts = Some False"
  shows "dispatched cfg opts w s g InputEffect = []
       \<and> dispatched cfg opts w s g (VisibilityChange v) = []
       \<and> dispatched (Some c) opts w s g RevalidateCall = [Revalidate]
       \<and> isReady None
       \<and> dispatched cfg (opts\<lparr>ready := None\<rparr>) w s g t
           = dispatched cfg (opts\<lparr>ready := Some True\<rparr>) w s g t"
proof -
  have a: "dispatched cfg opts w s g InputEffect = []"
    using assms
    by (simp add: dispatched_def inputEffect_def isReady_def Let_def split: option.splits)
  have b: "dispatched cfg opts w s g (VisibilityChange v) = []"
    using assms by (simp add: dispatched_def handleFocus_def isReady_def)
  have c: "dispatched (Some c) opts w s g RevalidateCall = [Revalidate]"
    by (simp add: dispatched_def useFlags_def flagBag_def revalidate_handle_def Let_def)
  have d: "isReady None"
    by (simp add: isReady_def)
  have e: "dispatched cfg (opts\<lparr>ready := None\<rparr>) w s g t
             = dispatched cfg (opts\<lparr>ready := Some True\<rparr>) w s g t"
    by (cases t)
       (simp_all add: dispatched_def inputEffect_def handleFocus_def isReady_def
                      listensForFocus_def shouldRevalidateOnFocus_def hookInput_def Let_def
                 split: option.splits)
  from a b c d e show ?thesis by simp
qed

text \<open>
  An instance: the hook is configured, listens for focus and holds no state yet, so that its
  input is a new one; the page becomes visible.
\<close>

theorem not_ready_gates_input_and_focus_witness:
  "ready options_not_ready = Some False
   \<and> listensForFocus (Some config_0) options_not_ready
   \<and> isEmergingInput (hookInput config_0 options_not_ready world_0 state_0 ''g1'') state_0
   \<and> dispatched (Some config_0) options_not_ready world_0 state_0 ''g1'' InputEffect = []
   \<and> dispatched (Some config_0) options_not_ready world_0 state_0 ''g1''
       (VisibilityChange Visible) = []"
proof -
  have h: "ready options_not_ready = Some False"
    by (simp add: options_not_ready_def)
  have l: "listensForFocus (Some config_0) options_not_ready"
    by (simp add: listensForFocus_def shouldRevalidateOnFocus_def config_0_def
                  options_not_ready_def)
  have n: "isEmergingInput (hookInput config_0 options_not_ready world_0 state_0 ''g1'') state_0"
    by (simp add: isEmergingInput_def state_0_def)
  from not_ready_gates_input_and_focus
         [OF h, of "Some config_0" world_0 state_0 "''g1''" Visible config_0 InputEffect]
       h l n
  show ?thesis by simp
qed

text \<open>
  With \<^verbatim>\<open>ready: false\<close> and the result for \<open>input_a\<close> shown, a call of the flag bag's
  handle dispatches \<^verbatim>\<open>revalidate\<close>, and the reducer then emits a fetch of \<open>input_a\<close>.
\<close>

theorem revalidate_handle_ignores_ready:
  "ready options_not_ready = Some False
   \<and> dispatched (Some config_0) options_not_ready world_a state_settled_a ''g1'' RevalidateCall
       = [Revalidate]
   \<and> emitted (snd (reducer world_a (state_settled_a, []) Revalidate)) = [Fetch input_a]"
  by (simp add: options_not_ready_def dispatched_def useFlags_def flagBag_def
                revalidate_handle_def latestInput_def state_settled_a_def Let_def)

section \<open>What the effect runner dispatches\<close>

lemma runEffect_dispatches_once: "length (runEffect eff fetched) = 1"
  by (cases eff; cases fetched)
     (auto simp: runEffect_def promise_then_def promise_catch_def onResponse_def
           split: option.splits)

lemma runEffect_parsed_response:
  "runEffect (Fetch i) (Fulfilled \<lparr>ok = b, json_body = Some body\<rparr>) =
     (if b then [SettleSuccess i \<lparr>responseBody = body\<rparr>] else [SettleFailure i ResponseNotOk])"
  by (simp add: runEffect_def promise_then_def promise_catch_def onResponse_def)

text \<open>
  Claim C3. What the runner dispatches for a fetch effect when no response arrives, and when a
  response arrives whose body does not parse. The rejection of \<^verbatim>\<open>fetch\<close> goes to the
  second handler of \<^verbatim>\<open>then\<close>, which dispatches \<^verbatim>\<open>invalid-response-body\<close>; the
  rejection of \<^verbatim>\<open>response.json()\<close> goes to \<^verbatim>\<open>catch\<close>, which dispatches
  \<^verbatim>\<open>network-error\<close>, also when the status of the response is not a success.
\<close>

theorem runEffect_failure_kinds:
  "runEffect (Fetch i) Rejected = [SettleFailure i InvalidResponseBody]
   \<and> runEffect (Fetch i) (Fulfilled \<lparr>ok = True, json_body = None\<rparr>) = [SettleFailure i NetworkError]
   \<and> runEffect (Fetch i) (Fulfilled \<lparr>ok = False, json_body = None\<rparr>) = [SettleFailure i NetworkError]"
  by (simp add: runEffect_def promise_then_def promise_catch_def onResponse_def)

end
